theory Spec2Isabelle
  imports Main
begin

section \<open>The WebP to PNG and JPEG converter (app.py)\<close>

text \<open>
  A shallow embedding of \<^verbatim>\<open>convert_webp_to_png_and_jpeg\<close> and of the command-line
  block of \<^verbatim>\<open>app.py\<close>. The program is a sequence of calls into \<^verbatim>\<open>os\<close> and into the
  image library, wrapped in three \<^verbatim>\<open>try\<close> blocks. The embedding keeps that shape:
  \<^item> the file system is a map from path strings to nodes, threaded through every call;
  \<^item> every \<^verbatim>\<open>print\<close> appends a message to the console, unless the console refuses the
    line and the \<^verbatim>\<open>print\<close> raises; every library call appends an entry to a call log, so
    that what the function did can be read off the final world;
  \<^item> an exception is a value: a computation returns \<open>Inl e\<close> when it raises \<open>e\<close>, and
    \<^verbatim>\<open>try ... except Exception\<close> is a combinator that turns \<open>Inl e\<close> into a run of the
    handler;
  \<^item> the image library and the console are not part of the repository, so what their calls
    return (or raise) is a parameter of the model: a record of functions, about which
    nothing is assumed except that a \<^verbatim>\<open>save\<close> touches no path but its target.

  What the model leaves out: the exceptions are those the \<^verbatim>\<open>print\<close>, \<^verbatim>\<open>os\<close> and image
  library calls raise, all instances of \<^verbatim>\<open>Exception\<close> (an interrupt from outside is not
  one of them); paths are POSIX paths, and two different path strings name two different
  files (no links).
\<close>

subsection \<open>Strings and paths\<close>

type_synonym path = string
type_synonym bytes = "char list"

definition INPUT_FOLDER :: path where
  "INPUT_FOLDER = ''inputs''"

definition OUTPUT_FOLDER :: path where
  "OUTPUT_FOLDER = ''outputs''"

text \<open>\<^verbatim>\<open>str.startswith\<close> and \<^verbatim>\<open>str.endswith\<close>.\<close>

definition startswith :: "string \<Rightarrow> string \<Rightarrow> bool" where
  "startswith s p = (take (length p) s = p)"

definition endswith :: "string \<Rightarrow> string \<Rightarrow> bool" where
  "endswith s p = (length p \<le> length s \<and> drop (length s - length p) s = p)"

text \<open>
  \<^verbatim>\<open>os.path.join(a, b)\<close> for two components, as the POSIX implementation computes it:
  a second component that starts with the separator replaces the first, and a separator
  is inserted unless the first component already ends with one.
\<close>

definition os_path_join :: "path \<Rightarrow> path \<Rightarrow> path" where
  "os_path_join a b =
     (if startswith b ''/'' \<or> a = [] then b
      else if endswith a ''/'' then a @ b
      else a @ ''/'' @ b)"

text \<open>
  Lines 26 to 36. The slice \<^verbatim>\<open>base_filename[:-5]\<close> keeps all but the last five characters.
\<close>

definition input_path :: "string \<Rightarrow> path" where
  "input_path base_filename = os_path_join INPUT_FOLDER base_filename"

definition str_core_filename :: "string \<Rightarrow> string" where
  "str_core_filename base_filename =
     (if endswith base_filename ''.webp''
      then take (length base_filename - 5) base_filename
      else base_filename)"

definition output_png_path :: "string \<Rightarrow> path" where
  "output_png_path base_filename =
     os_path_join OUTPUT_FOLDER (str_core_filename base_filename @ ''.png'')"

definition output_jpg_path :: "string \<Rightarrow> path" where
  "output_jpg_path base_filename =
     os_path_join OUTPUT_FOLDER (str_core_filename base_filename @ ''.jpg'')"

subsection \<open>The world: file system, console, library calls\<close>

datatype node = File bytes | Dir

type_synonym filesystem = "path \<Rightarrow> node option"

text \<open>An exception instance: the name of its class and its message.\<close>

datatype exn = PyExc string string

text \<open>An image object: the two attributes the program reads, and its pixel data.\<close>

record image =
  mode :: string
  image_size :: "nat \<times> nat"
  pixels :: "nat list"

datatype fmt = PNG | JPEG

text \<open>The lines the program prints, one constructor per \<^verbatim>\<open>print\<close> statement.\<close>

datatype message =
    InputNotFound path
  | Processing path
  | ConvertingToPng path
  | PngSuccessful
  | ErrorConvertingToPng exn
  | ConvertingToJpeg path int
  | AddingWhiteBackground
  | JpegSuccessful
  | ErrorConvertingToJpeg exn
  | Finished string bool bool
  | UnexpectedError string exn
  | QualityOutOfRange

text \<open>The calls the program makes into \<^verbatim>\<open>os\<close> and into the image library.\<close>

datatype call =
    IsFile path
  | MakeDirs path
  | ImageOpen path
  | ImageSave image path fmt "int option"
  | ImageNew string "nat \<times> nat" "nat \<times> nat \<times> nat"
  | ImageSplit image
  | ImagePaste image image image
  | ImageConvert image string

record world =
  fs :: filesystem
  stdout :: "message list"
  calls :: "call list"

text \<open>
  What the console, the platform and the image library answer. \<open>print_error\<close> is the
  exception, if any, that printing a line raises (a \<^verbatim>\<open>UnicodeEncodeError\<close> for a file name
  the encoding of the console cannot write, an \<^verbatim>\<open>OSError\<close> of the stream); a line that
  raises is not shown. \<open>mkdir_error\<close> is the error, if any,
  that creating a missing directory runs into (a read-only or protected working
  directory). \<open>pil_open\<close> decodes the contents of a file. \<open>pil_save\<close> is given the image,
  the format, the quality (JPEG only), the target path and the node now at that path, and
  answers with the exception it raises, if any, and the node it leaves at the path (a
  failed save may leave a partial file, or none). The other four are the image operations
  of the JPEG branch; \<open>pil_paste\<close> answers with the pasted-onto image.
\<close>

record library =
  print_error :: "message \<Rightarrow> exn option"
  mkdir_error :: "path \<Rightarrow> exn option"
  pil_open :: "bytes \<Rightarrow> exn + image"
  pil_save :: "image \<Rightarrow> fmt \<Rightarrow> int option \<Rightarrow> path \<Rightarrow> node option \<Rightarrow> exn option \<times> node option"
  pil_new :: "string \<Rightarrow> nat \<times> nat \<Rightarrow> nat \<times> nat \<times> nat \<Rightarrow> exn + image"
  pil_split :: "image \<Rightarrow> exn + image list"
  pil_paste :: "image \<Rightarrow> image \<Rightarrow> image \<Rightarrow> exn + image"
  pil_convert :: "image \<Rightarrow> string \<Rightarrow> exn + image"

subsection \<open>Computations that may raise\<close>

type_synonym 'a io = "world \<Rightarrow> (exn + 'a) \<times> world"

definition return_io :: "'a \<Rightarrow> 'a io" where
  "return_io x w = (Inr x, w)"

definition raise_io :: "exn \<Rightarrow> 'a io" where
  "raise_io e w = (Inl e, w)"

definition bind_io :: "'a io \<Rightarrow> ('a \<Rightarrow> 'b io) \<Rightarrow> 'b io" where
  "bind_io m f w = (case m w of (Inl e, w') \<Rightarrow> (Inl e, w') | (Inr x, w') \<Rightarrow> f x w')"

text \<open>\<^verbatim>\<open>try: m except Exception as e: h e\<close>\<close>

definition try_except :: "'a io \<Rightarrow> (exn \<Rightarrow> 'a io) \<Rightarrow> 'a io" where
  "try_except m h w = (case m w of (Inl e, w') \<Rightarrow> h e w' | (Inr x, w') \<Rightarrow> (Inr x, w'))"

definition print :: "library \<Rightarrow> message \<Rightarrow> unit io" where
  "print lib m w =
     (case print_error lib m of
        Some e \<Rightarrow> (Inl e, w)
      | None \<Rightarrow> (Inr (), w\<lparr>stdout := stdout w @ [m]\<rparr>))"

definition log_call :: "call \<Rightarrow> world \<Rightarrow> world" where
  "log_call c w = w\<lparr>calls := calls w @ [c]\<rparr>"

text \<open>Lifting an answer of the library: the call is logged, the file system is untouched.\<close>

definition library_call :: "call \<Rightarrow> exn + 'a \<Rightarrow> 'a io" where
  "library_call c r w = (r, log_call c w)"

subsection \<open>The calls of the program\<close>

text \<open>\<^verbatim>\<open>os.path.isfile\<close>: true for an existing regular file; it never raises.\<close>

definition isfile :: "filesystem \<Rightarrow> path \<Rightarrow> bool" where
  "isfile fsys p = (case fsys p of Some (File _) \<Rightarrow> True | _ \<Rightarrow> False)"

definition os_path_isfile :: "path \<Rightarrow> bool io" where
  "os_path_isfile p w = (Inr (isfile (fs w) p), log_call (IsFile p) w)"

text \<open>
  \<^verbatim>\<open>os.makedirs(p, exist_ok=True)\<close> for a single path component: an existing directory is
  left alone, an existing file of that name raises \<^verbatim>\<open>FileExistsError\<close>, and a missing
  directory is created unless the platform refuses.
\<close>

definition makedirs :: "library \<Rightarrow> filesystem \<Rightarrow> path \<Rightarrow> exn + filesystem" where
  "makedirs lib fsys p =
     (case fsys p of
        Some Dir \<Rightarrow> Inr fsys
      | Some (File _) \<Rightarrow> Inl (PyExc ''FileExistsError'' p)
      | None \<Rightarrow>
          (case mkdir_error lib p of
             Some e \<Rightarrow> Inl e
           | None \<Rightarrow> Inr (fsys(p \<mapsto> Dir))))"

definition os_makedirs :: "library \<Rightarrow> path \<Rightarrow> unit io" where
  "os_makedirs lib p w =
     (case makedirs lib (fs w) p of
        Inl e \<Rightarrow> (Inl e, log_call (MakeDirs p) w)
      | Inr fsys \<Rightarrow> (Inr (), log_call (MakeDirs p) (w\<lparr>fs := fsys\<rparr>)))"

text \<open>\<^verbatim>\<open>Image.open(p)\<close>: the library decodes the file at \<open>p\<close>.\<close>

definition open_image :: "library \<Rightarrow> filesystem \<Rightarrow> path \<Rightarrow> exn + image" where
  "open_image lib fsys p =
     (case fsys p of
        Some (File content) \<Rightarrow> pil_open lib content
      | Some Dir \<Rightarrow> Inl (PyExc ''IsADirectoryError'' p)
      | None \<Rightarrow> Inl (PyExc ''FileNotFoundError'' p))"

definition Image_open :: "library \<Rightarrow> path \<Rightarrow> image io" where
  "Image_open lib p w = library_call (ImageOpen p) (open_image lib (fs w) p) w"

text \<open>\<^verbatim>\<open>img.save(p, format=f)\<close> and \<^verbatim>\<open>img.save(p, format=f, quality=q)\<close>.\<close>

definition Image_save :: "library \<Rightarrow> image \<Rightarrow> path \<Rightarrow> fmt \<Rightarrow> int option \<Rightarrow> unit io" where
  "Image_save lib img p f q w =
     (case pil_save lib img f q p (fs w p) of
        (Some e, n) \<Rightarrow> (Inl e, log_call (ImageSave img p f q) (w\<lparr>fs := (fs w)(p := n)\<rparr>))
      | (None, n) \<Rightarrow> (Inr (), log_call (ImageSave img p f q) (w\<lparr>fs := (fs w)(p := n)\<rparr>)))"

definition Image_new :: "library \<Rightarrow> string \<Rightarrow> nat \<times> nat \<Rightarrow> nat \<times> nat \<times> nat \<Rightarrow> image io" where
  "Image_new lib m sz colour = library_call (ImageNew m sz colour) (pil_new lib m sz colour)"

definition Image_split :: "library \<Rightarrow> image \<Rightarrow> image list io" where
  "Image_split lib img = library_call (ImageSplit img) (pil_split lib img)"

definition Image_paste :: "library \<Rightarrow> image \<Rightarrow> image \<Rightarrow> image \<Rightarrow> image io" where
  "Image_paste lib bg img alpha = library_call (ImagePaste bg img alpha) (pil_paste lib bg img alpha)"

definition Image_convert :: "library \<Rightarrow> image \<Rightarrow> string \<Rightarrow> image io" where
  "Image_convert lib img m = library_call (ImageConvert img m) (pil_convert lib img m)"

text \<open>Indexing a tuple, \<^verbatim>\<open>bands[i]\<close>: out of range raises \<^verbatim>\<open>IndexError\<close>.\<close>

definition getitem :: "'a list \<Rightarrow> nat \<Rightarrow> 'a io" where
  "getitem xs i =
     (if i < length xs then return_io (xs ! i)
      else raise_io (PyExc ''IndexError'' ''tuple index out of range''))"

subsection \<open>The conversion function\<close>

text \<open>Lines 53 to 61: the PNG block. Its value is \<^verbatim>\<open>png_success\<close>.\<close>

definition png_conversion :: "library \<Rightarrow> image \<Rightarrow> path \<Rightarrow> bool io" where
  "png_conversion lib img png_path =
     try_except
       (bind_io (print lib (ConvertingToPng png_path)) (\<lambda>_.
        bind_io (Image_save lib img png_path PNG None) (\<lambda>_.
        bind_io (print lib PngSuccessful) (\<lambda>_.
        return_io True))))
       (\<lambda>e_png.
        bind_io (print lib (ErrorConvertingToPng e_png)) (\<lambda>_.
        return_io False))"

text \<open>Lines 67 to 79: the image handed to the JPEG encoder.\<close>

definition img_for_jpeg :: "library \<Rightarrow> image \<Rightarrow> image io" where
  "img_for_jpeg lib img =
     (if mode img = ''RGBA'' then
        bind_io (print lib AddingWhiteBackground) (\<lambda>_.
        bind_io (Image_new lib ''RGB'' (image_size img) (255, 255, 255)) (\<lambda>bg.
        bind_io (Image_split lib img) (\<lambda>bands.
        bind_io (getitem bands 3) (\<lambda>alpha.
        Image_paste lib bg img alpha))))
      else if mode img \<noteq> ''RGB'' then Image_convert lib img ''RGB''
      else return_io img)"

text \<open>Lines 64 to 86: the JPEG block. Its value is \<^verbatim>\<open>jpg_success\<close>.\<close>

definition jpeg_conversion :: "library \<Rightarrow> image \<Rightarrow> path \<Rightarrow> int \<Rightarrow> bool io" where
  "jpeg_conversion lib img jpg_path quality =
     try_except
       (bind_io (print lib (ConvertingToJpeg jpg_path quality)) (\<lambda>_.
        bind_io (img_for_jpeg lib img) (\<lambda>source.
        bind_io (Image_save lib source jpg_path JPEG (Some quality)) (\<lambda>_.
        bind_io (print lib JpegSuccessful) (\<lambda>_.
        return_io True)))))
       (\<lambda>e_jpg.
        bind_io (print lib (ErrorConvertingToJpeg e_jpg)) (\<lambda>_.
        return_io False))"

text \<open>Lines 26 to 94. A result \<open>Inl e\<close> would be an exception that reaches the caller.\<close>

definition convert_webp_to_png_and_jpeg :: "library \<Rightarrow> string \<Rightarrow> int \<Rightarrow> bool io" where
  "convert_webp_to_png_and_jpeg lib base_filename quality =
     try_except
       (bind_io (os_path_isfile (input_path base_filename)) (\<lambda>found.
        if \<not> found then
          bind_io (print lib (InputNotFound (input_path base_filename))) (\<lambda>_.
          return_io False)
        else
          bind_io (print lib (Processing (input_path base_filename))) (\<lambda>_.
          bind_io (os_makedirs lib OUTPUT_FOLDER) (\<lambda>_.
          bind_io (Image_open lib (input_path base_filename)) (\<lambda>img.
          bind_io (png_conversion lib img (output_png_path base_filename)) (\<lambda>png_success.
          bind_io (jpeg_conversion lib img (output_jpg_path base_filename) quality) (\<lambda>jpg_success.
          bind_io (print lib (Finished base_filename png_success jpg_success)) (\<lambda>_.
          return_io True))))))))
       (\<lambda>e.
        bind_io (print lib (UnexpectedError base_filename e)) (\<lambda>_.
        return_io False))"

text \<open>A direct call that leaves \<^verbatim>\<open>quality\<close> out takes the default of the signature (line 10).\<close>

definition convert_webp_to_png_and_jpeg_default :: "library \<Rightarrow> string \<Rightarrow> bool io" where
  "convert_webp_to_png_and_jpeg_default lib base_filename =
     convert_webp_to_png_and_jpeg lib base_filename 85"

subsection \<open>The command line\<close>

text \<open>
  Lines 97 to 120, after \<^verbatim>\<open>argparse\<close> has read the arguments: \<open>arg_quality\<close> is \<open>None\<close>
  when \<^verbatim>\<open>-q\<close> was not given, and the parser then fills in its own default.
\<close>

record args =
  arg_filename :: string
  arg_quality :: "int option"

definition parsed_quality :: "args \<Rightarrow> int" where
  "parsed_quality a = (case arg_quality a of None \<Rightarrow> 100 | Some q \<Rightarrow> q)"

definition main :: "library \<Rightarrow> args \<Rightarrow> unit io" where
  "main lib a =
     (if \<not> (1 \<le> parsed_quality a \<and> parsed_quality a \<le> 100) then print lib QualityOutOfRange
      else bind_io (convert_webp_to_png_and_jpeg lib (arg_filename a) (parsed_quality a)) (\<lambda>_.
           return_io ()))"

subsection \<open>Reading a finished run\<close>

text \<open>A run from an empty console and an empty call log.\<close>

definition initial :: "filesystem \<Rightarrow> world" where
  "initial fsys = \<lparr>fs = fsys, stdout = [], calls = []\<rparr>"

text \<open>
  The world right after a successful \<^verbatim>\<open>Image.open\<close> (line 50): the lookup, the creation
  of the output folder and the opening are logged, and one line has been printed.
\<close>

definition decoded_world :: "world \<Rightarrow> filesystem \<Rightarrow> string \<Rightarrow> world" where
  "decoded_world w fsys b =
     w\<lparr>stdout := stdout w @ [Processing (input_path b)], fs := fsys,
       calls := calls w @ [IsFile (input_path b), MakeDirs OUTPUT_FOLDER, ImageOpen (input_path b)]\<rparr>"

text \<open>
  The two success flags are local variables; the program shows them in its last line
  (line 88). \<open>summary\<close> reads them back: \<open>Some (png_success, jpg_success)\<close> when the run
  ended with that line.
\<close>

definition summary :: "world \<Rightarrow> (bool \<times> bool) option" where
  "summary w =
     (if stdout w = [] then None
      else case last (stdout w) of Finished _ p j \<Rightarrow> Some (p, j) | _ \<Rightarrow> None)"


definition jpeg_attempted :: "string \<Rightarrow> int \<Rightarrow> world \<Rightarrow> bool" where
  "jpeg_attempted b q w = (ConvertingToJpeg (output_jpg_path b) q \<in> set (stdout w))"

fun is_save :: "call \<Rightarrow> bool" where
  "is_save (ImageSave _ _ _ _) = True"
| "is_save _ = False"

fun is_png_save :: "call \<Rightarrow> bool" where
  "is_png_save (ImageSave _ _ PNG _) = True"
| "is_png_save _ = False"


text \<open>The path a call looks up or opens.\<close>

fun looked_up :: "call \<Rightarrow> path option" where
  "looked_up (IsFile p) = Some p"
| "looked_up (ImageOpen p) = Some p"
| "looked_up _ = None"

fun is_png_message :: "message \<Rightarrow> bool" where
  "is_png_message (ConvertingToPng _) = True"
| "is_png_message PngSuccessful = True"
| "is_png_message (ErrorConvertingToPng _) = True"
| "is_png_message _ = False"

text \<open>
  The image the JPEG block hands to the encoder, or the exception that preparing it
  raises. The library's answers do not depend on the world, so any world will do.
\<close>

definition jpeg_source :: "library \<Rightarrow> image \<Rightarrow> exn + image" where
  "jpeg_source lib img = fst (img_for_jpeg lib img (initial (\<lambda>_. None)))"

subsection \<open>Frames\<close>

text \<open>The quality a line announces.\<close>

fun announced_quality :: "message \<Rightarrow> int option" where
  "announced_quality (ConvertingToJpeg _ q) = Some q"
| "announced_quality _ = None"

text \<open>
  A frame is a reflexive and transitive relation between the world before and the world
  after; a computation keeps a frame when every run of it, raising or not, ends in a world
  related to the one it started from.
\<close>

definition frame :: "(world \<Rightarrow> world \<Rightarrow> bool) \<Rightarrow> bool" where
  "frame R = ((\<forall>w. R w w) \<and> (\<forall>a b c. R a b \<and> R b c \<longrightarrow> R a c))"

definition io_inv :: "(world \<Rightarrow> world \<Rightarrow> bool) \<Rightarrow> 'a io \<Rightarrow> bool" where
  "io_inv R m = (\<forall>w. R w (snd (m w)))"

text \<open>
  Three frames: the calls only grow, and look up or open no path but \<open>p\<close>; the console
  only grows, and no quality but \<open>q\<close> is announced; the PNG side (the node at \<open>p\<close>,
  the PNG saves, the lines of the PNG block) is as it was.
\<close>

definition only_looks_up :: "path \<Rightarrow> world \<Rightarrow> world \<Rightarrow> bool" where
  "only_looks_up p w w' =
     (\<exists>cs. calls w' = calls w @ cs
          \<and> list_all (\<lambda>c. looked_up c = None \<or> looked_up c = Some p) cs)"

definition announces_only :: "int \<Rightarrow> world \<Rightarrow> world \<Rightarrow> bool" where
  "announces_only q w w' =
     (\<exists>ms. stdout w' = stdout w @ ms
          \<and> list_all (\<lambda>m. announced_quality m = None \<or> announced_quality m = Some q) ms)"

definition png_untouched :: "path \<Rightarrow> world \<Rightarrow> world \<Rightarrow> bool" where
  "png_untouched p w w' =
     (fs w' p = fs w p
    \<and> filter is_png_save (calls w') = filter is_png_save (calls w)
    \<and> filter is_png_message (stdout w') = filter is_png_message (stdout w))"

text \<open>Two computations that leave the PNG side in the same state.\<close>

definition png_agree :: "path \<Rightarrow> 'a io \<Rightarrow> 'a io \<Rightarrow> bool" where
  "png_agree p m1 m2 = (\<forall>w. png_untouched p (snd (m1 w)) (snd (m2 w)))"

subsection \<open>A sample environment\<close>

text \<open>
  One transparent RGBA pixel, stored as \<^verbatim>\<open>inputs/photo.webp\<close>, next to a file that is not
  an image. In this environment the console takes every line, the PNG encoder fails and
  the JPEG encoder works.
\<close>

definition sample_image :: image where
  "sample_image = \<lparr>mode = ''RGBA'', image_size = (1, 1), pixels = [10, 20, 30, 0]\<rparr>"

definition sample_library :: library where
  "sample_library =
     \<lparr>print_error = (\<lambda>_. None),
      mkdir_error = (\<lambda>_. None),
      pil_open = (\<lambda>content.
        if content = ''RIFF'' then Inr sample_image
        else Inl (PyExc ''UnidentifiedImageError'' ''cannot identify image file'')),
      pil_save = (\<lambda>img f q p n.
        case f of
          PNG \<Rightarrow> (Some (PyExc ''OSError'' ''encoder error''), None)
        | JPEG \<Rightarrow> (None, Some (File ''jpeg''))),
      pil_new = (\<lambda>m sz colour.
        Inr \<lparr>mode = m, image_size = sz,
             pixels = [fst colour, fst (snd colour), snd (snd colour)]\<rparr>),
      pil_split = (\<lambda>img.
        Inr (map (\<lambda>v. \<lparr>mode = ''L'', image_size = image_size img, pixels = [v]\<rparr>) (pixels img))),
      pil_paste = (\<lambda>bg img alpha.
        Inr (if pixels alpha = [0] then bg else bg\<lparr>pixels := take 3 (pixels img)\<rparr>)),
      pil_convert = (\<lambda>img m. Inr (img\<lparr>mode := m\<rparr>))\<rparr>"

definition sample_files :: filesystem where
  "sample_files =
     [''inputs/photo.webp'' \<mapsto> File ''RIFF'',
      ''inputs/broken.webp'' \<mapsto> File ''not an image'']"

text \<open>
  A console with a strict encoding. The character \<open>CHR 0xFF\<close> stands for a byte of the
  command line that is not valid text: Python keeps it in the string as a lone surrogate,
  which a strict standard output cannot write. \<open>shown\<close> lists the strings a line shows.
\<close>

fun shown :: "message \<Rightarrow> string list" where
  "shown (InputNotFound p) = [p]"
| "shown (Processing p) = [p]"
| "shown (ConvertingToPng p) = [p]"
| "shown PngSuccessful = []"
| "shown (ErrorConvertingToPng (PyExc _ m)) = [m]"
| "shown (ConvertingToJpeg p _) = [p]"
| "shown AddingWhiteBackground = []"
| "shown JpegSuccessful = []"
| "shown (ErrorConvertingToJpeg (PyExc _ m)) = [m]"
| "shown (Finished b _ _) = [b]"
| "shown (UnexpectedError b (PyExc _ m)) = [b, m]"
| "shown QualityOutOfRange = []"

definition strict_stdout :: "message \<Rightarrow> exn option" where
  "strict_stdout m =
     (if list_all (\<lambda>s. CHR 0xFF \<notin> set s) (shown m) then None
      else Some (PyExc ''UnicodeEncodeError'' ''surrogates not allowed''))"

definition strict_library :: library where
  "strict_library = sample_library\<lparr>print_error := strict_stdout\<rparr>"

definition escaped_name :: string where
  "escaped_name = CHR 0xFF # ''.webp''"

text \<open>
  A file that opens, since its header is sound, but whose data is cut short: every
  \<^verbatim>\<open>save\<close> has to load the data and raises, leaving no file.
\<close>

definition truncated_library :: library where
  "truncated_library =
     sample_library\<lparr>pil_save := (\<lambda>img f q p n.
       (Some (PyExc ''OSError'' ''image file is truncated''), None))\<rparr>"



section \<open>Properties\<close>

subsection \<open>Frames and what keeps them\<close>

lemmas io_defs = return_io_def raise_io_def bind_io_def try_except_def
  log_call_def library_call_def

lemma frame_refl: "frame R \<Longrightarrow> R w w"
  unfolding frame_def by blast

lemma frame_trans: "frame R \<Longrightarrow> R a b \<Longrightarrow> R b c \<Longrightarrow> R a c"
  unfolding frame_def by blast

lemma io_invD: "io_inv R m \<Longrightarrow> m w = (r, w') \<Longrightarrow> R w w'"
  unfolding io_inv_def by (metis snd_conv)

lemma io_inv_return: "frame R \<Longrightarrow> io_inv R (return_io x)"
  by (simp add: io_inv_def frame_refl return_io_def)

lemma io_inv_raise: "frame R \<Longrightarrow> io_inv R (raise_io e)"
  by (simp add: io_inv_def frame_refl raise_io_def)

lemma io_inv_bind:
  assumes "frame R" and "io_inv R m" and "\<And>x. io_inv R (f x)"
  shows "io_inv R (bind_io m f)"
  unfolding io_inv_def
proof
  fix w
  obtain r w' where s: "m w = (r, w')" by (cases "m w")
  have a: "R w w'" using assms(2) s by (rule io_invD)
  show "R w (snd (bind_io m f w))"
  proof (cases r)
    case (Inl e)
    with s a show ?thesis by (simp add: bind_io_def)
  next
    case (Inr x)
    have "R w' (snd (f x w'))" using assms(3) by (simp add: io_inv_def)
    with a assms(1) have "R w (snd (f x w'))" by (blast intro: frame_trans)
    with s Inr show ?thesis by (simp add: bind_io_def)
  qed
qed

lemma io_inv_try_except:
  assumes "frame R" and "io_inv R m" and "\<And>e. io_inv R (h e)"
  shows "io_inv R (try_except m h)"
  unfolding io_inv_def
proof
  fix w
  obtain r w' where s: "m w = (r, w')" by (cases "m w")
  have a: "R w w'" using assms(2) s by (rule io_invD)
  show "R w (snd (try_except m h w))"
  proof (cases r)
    case (Inr x)
    with s a show ?thesis by (simp add: try_except_def)
  next
    case (Inl e)
    have "R w' (snd (h e w'))" using assms(3) by (simp add: io_inv_def)
    with a assms(1) have "R w (snd (h e w'))" by (blast intro: frame_trans)
    with s Inl show ?thesis by (simp add: try_except_def)
  qed
qed

lemma io_inv_if: "io_inv R a \<Longrightarrow> io_inv R b \<Longrightarrow> io_inv R (if c then a else b)"
  by simp

lemma io_inv_print:
  assumes "frame R" and "\<And>w. R w (w\<lparr>stdout := stdout w @ [m]\<rparr>)"
  shows "io_inv R (print lib m)"
  using assms by (simp add: io_inv_def frame_refl print_def split: option.splits)

lemma io_inv_library_call:
  assumes "\<And>w. R w (w\<lparr>calls := calls w @ [c]\<rparr>)"
  shows "io_inv R (library_call c r)"
  using assms by (simp add: io_inv_def library_call_def log_call_def)

lemma io_inv_getitem: "frame R \<Longrightarrow> io_inv R (getitem xs i)"
  by (simp add: getitem_def io_inv_return io_inv_raise)

lemma io_inv_Image_save:
  assumes "\<And>w n. R w (w\<lparr>fs := (fs w)(p := n), calls := calls w @ [ImageSave img p f q]\<rparr>)"
  shows "io_inv R (Image_save lib img p f q)"
  using assms by (simp add: io_inv_def Image_save_def log_call_def split: prod.splits option.splits)

lemma io_inv_os_path_isfile:
  assumes "\<And>w. R w (w\<lparr>calls := calls w @ [IsFile p]\<rparr>)"
  shows "io_inv R (os_path_isfile p)"
  using assms by (simp add: io_inv_def os_path_isfile_def log_call_def)

lemma io_inv_os_makedirs:
  assumes "\<And>w. R w (w\<lparr>calls := calls w @ [MakeDirs p]\<rparr>)"
    and "\<And>w fsys. makedirs lib (fs w) p = Inr fsys \<Longrightarrow>
           R w (w\<lparr>fs := fsys, calls := calls w @ [MakeDirs p]\<rparr>)"
  shows "io_inv R (os_makedirs lib p)"
  using assms by (simp add: io_inv_def os_makedirs_def log_call_def split: sum.splits)

lemma io_inv_Image_open:
  assumes "\<And>w. R w (w\<lparr>calls := calls w @ [ImageOpen p]\<rparr>)"
  shows "io_inv R (Image_open lib p)"
  using assms by (simp add: io_inv_def Image_open_def library_call_def log_call_def)

lemmas io_inv_rules = io_inv_return io_inv_raise io_inv_bind io_inv_try_except io_inv_if
  io_inv_print io_inv_getitem io_inv_Image_save io_inv_os_path_isfile io_inv_os_makedirs
  io_inv_Image_open io_inv_library_call

lemma frame_only_looks_up: "frame (only_looks_up p)"
  unfolding frame_def only_looks_up_def
proof (intro conjI allI impI)
  fix w :: world show "\<exists>cs. calls w = calls w @ cs
      \<and> list_all (\<lambda>c. looked_up c = None \<or> looked_up c = Some p) cs"
    by (rule exI [of _ "[]"]) simp
next
  fix a b c :: world
  assume "(\<exists>cs. calls b = calls a @ cs
             \<and> list_all (\<lambda>c. looked_up c = None \<or> looked_up c = Some p) cs)
        \<and> (\<exists>cs. calls c = calls b @ cs
             \<and> list_all (\<lambda>c. looked_up c = None \<or> looked_up c = Some p) cs)"
  then obtain cs cs' where "calls b = calls a @ cs" "calls c = calls b @ cs'"
    "list_all (\<lambda>c. looked_up c = None \<or> looked_up c = Some p) cs"
    "list_all (\<lambda>c. looked_up c = None \<or> looked_up c = Some p) cs'"
    by blast
  then show "\<exists>cs. calls c = calls a @ cs
      \<and> list_all (\<lambda>c. looked_up c = None \<or> looked_up c = Some p) cs"
    by (intro exI [of _ "cs @ cs'"]) simp
qed

lemma frame_announces_only: "frame (announces_only q)"
  unfolding frame_def announces_only_def
proof (intro conjI allI impI)
  fix w :: world show "\<exists>ms. stdout w = stdout w @ ms
      \<and> list_all (\<lambda>m. announced_quality m = None \<or> announced_quality m = Some q) ms"
    by (rule exI [of _ "[]"]) simp
next
  fix a b c :: world
  assume "(\<exists>ms. stdout b = stdout a @ ms
             \<and> list_all (\<lambda>m. announced_quality m = None \<or> announced_quality m = Some q) ms)
        \<and> (\<exists>ms. stdout c = stdout b @ ms
             \<and> list_all (\<lambda>m. announced_quality m = None \<or> announced_quality m = Some q) ms)"
  then obtain ms ms' where "stdout b = stdout a @ ms" "stdout c = stdout b @ ms'"
    "list_all (\<lambda>m. announced_quality m = None \<or> announced_quality m = Some q) ms"
    "list_all (\<lambda>m. announced_quality m = None \<or> announced_quality m = Some q) ms'"
    by blast
  then show "\<exists>ms. stdout c = stdout a @ ms
      \<and> list_all (\<lambda>m. announced_quality m = None \<or> announced_quality m = Some q) ms"
    by (intro exI [of _ "ms @ ms'"]) simp
qed

lemma frame_png_untouched: "frame (png_untouched p)"
  unfolding frame_def png_untouched_def by simp

lemma only_looks_up_calls:
  "looked_up c = None \<or> looked_up c = Some p \<Longrightarrow>
   only_looks_up p w (w\<lparr>calls := calls w @ [c]\<rparr>)"
  by (simp add: only_looks_up_def)

lemma only_looks_up_other [simp]:
  "only_looks_up p w (w\<lparr>stdout := ms\<rparr>)"
  by (simp add: only_looks_up_def)

lemma only_looks_up_fs_calls:
  "looked_up c = None \<or> looked_up c = Some p \<Longrightarrow>
   only_looks_up p w (w\<lparr>fs := f, calls := calls w @ [c]\<rparr>)"
  by (simp add: only_looks_up_def)

lemma png_conversion_only_looks_up: "io_inv (only_looks_up p) (png_conversion lib img png_path)"
  unfolding png_conversion_def
  by (intro io_inv_rules frame_only_looks_up only_looks_up_other only_looks_up_fs_calls) simp

lemma img_for_jpeg_only_looks_up: "io_inv (only_looks_up p) (img_for_jpeg lib img)"
  unfolding img_for_jpeg_def Image_new_def Image_split_def Image_paste_def Image_convert_def
  by (intro io_inv_rules frame_only_looks_up only_looks_up_other only_looks_up_calls) simp_all

lemma jpeg_conversion_only_looks_up:
  "io_inv (only_looks_up p) (jpeg_conversion lib img jpg_path q)"
  unfolding jpeg_conversion_def
  by (intro io_inv_rules frame_only_looks_up only_looks_up_other only_looks_up_fs_calls
      img_for_jpeg_only_looks_up) simp

lemma convert_only_looks_up:
  "io_inv (only_looks_up (input_path b)) (convert_webp_to_png_and_jpeg lib b q)"
  unfolding convert_webp_to_png_and_jpeg_def
  by (intro io_inv_rules frame_only_looks_up only_looks_up_other only_looks_up_fs_calls
      only_looks_up_calls png_conversion_only_looks_up jpeg_conversion_only_looks_up) simp_all

lemma try_except_bind:
  "try_except (bind_io m f) h w =
     (case m w of (Inl e, w') \<Rightarrow> h e w' | (Inr x, w') \<Rightarrow> try_except (f x) h w')"
  by (simp add: try_except_def bind_io_def split: prod.splits sum.splits)

text \<open>The first call of a run.\<close>

lemma first_call:
  assumes "\<And>found. io_inv (only_looks_up p) (try_except (f found) h)"
  shows "\<exists>cs. calls (snd (try_except (bind_io (os_path_isfile p) f) h w)) = calls w @ IsFile p # cs
            \<and> list_all (\<lambda>c. looked_up c = None \<or> looked_up c = Some p) cs"
proof -
  let ?w1 = "w\<lparr>calls := calls w @ [IsFile p]\<rparr>"
  have "only_looks_up p ?w1 (snd (try_except (f (isfile (fs w) p)) h ?w1))"
    using assms by (simp add: io_inv_def)
  then show ?thesis
    by (simp add: try_except_bind os_path_isfile_def log_call_def only_looks_up_def)
qed

lemma convert_first_call:
  "\<exists>cs. calls (snd (convert_webp_to_png_and_jpeg lib b q w)) = calls w @ IsFile (input_path b) # cs
        \<and> list_all (\<lambda>c. looked_up c = None \<or> looked_up c = Some (input_path b)) cs"
  unfolding convert_webp_to_png_and_jpeg_def
  by (rule first_call)
    (intro io_inv_rules frame_only_looks_up only_looks_up_other only_looks_up_fs_calls
      only_looks_up_calls png_conversion_only_looks_up jpeg_conversion_only_looks_up; simp)

lemma convert_true_file:
  "fst (convert_webp_to_png_and_jpeg lib b q w) = Inr True \<Longrightarrow> isfile (fs w) (input_path b)"
  by (rule ccontr)
    (simp add: convert_webp_to_png_and_jpeg_def os_path_isfile_def io_defs print_def
      split: option.splits)

text \<open>The qualities a run announces.\<close>

lemma announces_only_stdout:
  "announced_quality m = None \<or> announced_quality m = Some q \<Longrightarrow>
   announces_only q w (w\<lparr>stdout := stdout w @ [m]\<rparr>)"
  by (simp add: announces_only_def)

lemma announces_only_calls [simp]: "announces_only q w (w\<lparr>calls := cs\<rparr>)"
  by (simp add: announces_only_def)

lemma announces_only_fs_calls [simp]: "announces_only q w (w\<lparr>fs := f, calls := cs\<rparr>)"
  by (simp add: announces_only_def)

lemma png_conversion_announces: "io_inv (announces_only q) (png_conversion lib img png_path)"
  unfolding png_conversion_def
  by (intro io_inv_rules frame_announces_only announces_only_stdout announces_only_fs_calls) simp_all

lemma img_for_jpeg_announces: "io_inv (announces_only q) (img_for_jpeg lib img)"
  unfolding img_for_jpeg_def Image_new_def Image_split_def Image_paste_def Image_convert_def
  by (intro io_inv_rules frame_announces_only announces_only_stdout announces_only_calls) simp_all

lemma jpeg_conversion_announces: "io_inv (announces_only q) (jpeg_conversion lib img jpg_path q)"
  unfolding jpeg_conversion_def
  by (intro io_inv_rules frame_announces_only announces_only_stdout announces_only_fs_calls
      img_for_jpeg_announces) simp_all

lemma convert_announces:
  "io_inv (announces_only q) (convert_webp_to_png_and_jpeg lib b q)"
  unfolding convert_webp_to_png_and_jpeg_def
  by (intro io_inv_rules frame_announces_only announces_only_stdout announces_only_fs_calls
      announces_only_calls png_conversion_announces jpeg_conversion_announces) simp_all

lemma jpeg_quality_printed:
  assumes "ConvertingToJpeg p q' \<in> set (stdout (snd (convert_webp_to_png_and_jpeg lib b q (initial fsys))))"
  shows "q' = q"
proof -
  have "announces_only q (initial fsys) (snd (convert_webp_to_png_and_jpeg lib b q (initial fsys)))"
    using convert_announces by (simp add: io_inv_def)
  then have "list_all (\<lambda>m. announced_quality m = None \<or> announced_quality m = Some q)
               (stdout (snd (convert_webp_to_png_and_jpeg lib b q (initial fsys))))"
    by (auto simp: announces_only_def initial_def)
  with assms have "announced_quality (ConvertingToJpeg p q') = None
      \<or> announced_quality (ConvertingToJpeg p q') = Some q"
    unfolding list_all_iff by blast
  then show ?thesis by simp
qed

text \<open>What leaves the PNG side alone.\<close>

lemma png_untouched_stdout:
  "\<not> is_png_message m \<Longrightarrow> png_untouched p w (w\<lparr>stdout := stdout w @ [m]\<rparr>)"
  by (simp add: png_untouched_def)

lemma png_untouched_calls:
  "\<not> is_png_save c \<Longrightarrow> png_untouched p w (w\<lparr>calls := calls w @ [c]\<rparr>)"
  by (simp add: png_untouched_def)

lemma png_untouched_fs_calls:
  "\<not> is_png_save c \<Longrightarrow> p' \<noteq> p \<Longrightarrow>
   png_untouched p w (w\<lparr>fs := (fs w)(p' := n), calls := calls w @ [c]\<rparr>)"
  by (simp add: png_untouched_def)

lemma img_for_jpeg_png_untouched: "io_inv (png_untouched p) (img_for_jpeg lib img)"
  unfolding img_for_jpeg_def Image_new_def Image_split_def Image_paste_def Image_convert_def
  by (intro io_inv_rules frame_png_untouched png_untouched_stdout png_untouched_calls) simp_all

lemma jpeg_conversion_png_untouched:
  "jpg_path \<noteq> p \<Longrightarrow> io_inv (png_untouched p) (jpeg_conversion lib img jpg_path q)"
  unfolding jpeg_conversion_def
  by (intro io_inv_rules frame_png_untouched png_untouched_stdout png_untouched_fs_calls
      img_for_jpeg_png_untouched) simp_all

lemma png_agree_refl: "png_agree p m m"
  by (simp add: png_agree_def png_untouched_def)

lemma png_agree_inv:
  "io_inv (png_untouched p) m1 \<Longrightarrow> io_inv (png_untouched p) m2 \<Longrightarrow> png_agree p m1 m2"
  by (simp add: png_agree_def io_inv_def png_untouched_def)

lemma png_agree_try_bind:
  assumes "\<And>x. png_agree p (try_except (f1 x) h) (try_except (f2 x) h)"
  shows "png_agree p (try_except (bind_io m f1) h) (try_except (bind_io m f2) h)"
  unfolding png_agree_def
proof
  fix w :: world
  obtain r w' where s: "m w = (r, w')" by (cases "m w")
  show "png_untouched p (snd (try_except (bind_io m f1) h w)) (snd (try_except (bind_io m f2) h w))"
  proof (cases r)
    case (Inl e)
    with s show ?thesis by (simp add: try_except_bind png_untouched_def)
  next
    case (Inr x)
    with s assms [of x] show ?thesis by (simp add: try_except_bind png_agree_def)
  qed
qed

lemma png_agree_try_if:
  "png_agree p (try_except a1 h) (try_except a2 h) \<Longrightarrow>
   png_agree p (try_except b1 h) (try_except b2 h) \<Longrightarrow>
   png_agree p (try_except (if c then a1 else b1) h) (try_except (if c then a2 else b2) h)"
  by simp

lemma png_jpg_distinct: "output_jpg_path b \<noteq> output_png_path b"
  by (auto simp: output_jpg_path_def output_png_path_def os_path_join_def startswith_def
      endswith_def OUTPUT_FOLDER_def)

lemma convert_png_agree:
  "png_agree (output_png_path b)
     (convert_webp_to_png_and_jpeg lib b q1) (convert_webp_to_png_and_jpeg lib b q2)"
  unfolding convert_webp_to_png_and_jpeg_def
  apply (intro png_agree_try_bind png_agree_try_if png_agree_refl)
  apply (rule png_agree_inv)
   apply (intro io_inv_rules frame_png_untouched png_untouched_stdout
      jpeg_conversion_png_untouched png_jpg_distinct; simp)
  apply (intro io_inv_rules frame_png_untouched png_untouched_stdout
      jpeg_conversion_png_untouched png_jpg_distinct; simp)
  done

subsection \<open>With a console that takes every line\<close>

lemmas path_defs = input_path_def output_png_path_def output_jpg_path_def
  str_core_filename_def os_path_join_def startswith_def endswith_def
  INPUT_FOLDER_def OUTPUT_FOLDER_def

lemma print_ok:
  "print_error lib = (\<lambda>_. None) \<Longrightarrow> print lib m w = (Inr (), w\<lparr>stdout := stdout w @ [m]\<rparr>)"
  by (simp add: print_def)

lemma png_conversion_run:
  assumes "print_error lib = (\<lambda>_. None)"
  shows "png_conversion lib img p w =
     (case pil_save lib img PNG None p (fs w p) of
        (None, n) \<Rightarrow>
          (Inr True, w\<lparr>fs := (fs w)(p := n),
                       stdout := stdout w @ [ConvertingToPng p, PngSuccessful],
                       calls := calls w @ [ImageSave img p PNG None]\<rparr>)
      | (Some e, n) \<Rightarrow>
          (Inr False, w\<lparr>fs := (fs w)(p := n),
                        stdout := stdout w @ [ConvertingToPng p, ErrorConvertingToPng e],
                        calls := calls w @ [ImageSave img p PNG None]\<rparr>))"
  by (simp add: png_conversion_def Image_save_def io_defs print_ok [OF assms]
      split: prod.splits option.splits)


lemma img_for_jpeg_indep: "fst (img_for_jpeg lib img w) = fst (img_for_jpeg lib img u)"
  by (auto simp: img_for_jpeg_def Image_new_def Image_split_def Image_paste_def
      Image_convert_def getitem_def io_defs print_def split: prod.splits sum.splits option.splits)

lemma img_for_jpeg_source: "fst (img_for_jpeg lib img w) = jpeg_source lib img"
  unfolding jpeg_source_def by (rule img_for_jpeg_indep)





lemma jpeg_conversion_run:
  assumes "print_error lib = (\<lambda>_. None)"
  shows "jpeg_conversion lib img p q w =
     (case img_for_jpeg lib img (w\<lparr>stdout := stdout w @ [ConvertingToJpeg p q]\<rparr>) of
        (Inl e, w1) \<Rightarrow> (Inr False, w1\<lparr>stdout := stdout w1 @ [ErrorConvertingToJpeg e]\<rparr>)
      | (Inr src, w1) \<Rightarrow>
          (case pil_save lib src JPEG (Some q) p (fs w1 p) of
             (None, n) \<Rightarrow>
               (Inr True, w1\<lparr>fs := (fs w1)(p := n),
                            stdout := stdout w1 @ [JpegSuccessful],
                            calls := calls w1 @ [ImageSave src p JPEG (Some q)]\<rparr>)
           | (Some e, n) \<Rightarrow>
               (Inr False, w1\<lparr>fs := (fs w1)(p := n),
                             stdout := stdout w1 @ [ErrorConvertingToJpeg e],
                             calls := calls w1 @ [ImageSave src p JPEG (Some q)]\<rparr>)))"
  by (simp add: jpeg_conversion_def Image_save_def io_defs print_ok [OF assms]
      split: prod.splits option.splits sum.splits)

lemma png_conversion_returns:
  assumes "print_error lib = (\<lambda>_. None)"
  shows "\<exists>flag w'. png_conversion lib img p w = (Inr flag, w')"
  by (auto simp: png_conversion_run [OF assms] split: prod.splits option.splits)

lemma jpeg_conversion_returns:
  assumes "print_error lib = (\<lambda>_. None)"
  shows "\<exists>flag w'. jpeg_conversion lib img p q w = (Inr flag, w')"
  by (auto simp: jpeg_conversion_run [OF assms] split: prod.splits option.splits sum.splits)


lemma jpeg_source_rule:
  assumes "print_error lib = (\<lambda>_. None)"
  shows "jpeg_source lib img =
     (if mode img = ''RGBA'' then
        (case pil_new lib ''RGB'' (image_size img) (255, 255, 255) of
           Inl e \<Rightarrow> Inl e
         | Inr bg \<Rightarrow>
             (case pil_split lib img of
                Inl e \<Rightarrow> Inl e
              | Inr bands \<Rightarrow>
                  if 3 < length bands then pil_paste lib bg img (bands ! 3)
                  else Inl (PyExc ''IndexError'' ''tuple index out of range'')))
      else if mode img \<noteq> ''RGB'' then pil_convert lib img ''RGB''
      else Inr img)"
  by (simp add: jpeg_source_def img_for_jpeg_def Image_new_def Image_split_def Image_paste_def
      Image_convert_def getitem_def io_defs print_ok [OF assms] initial_def
      split: prod.splits sum.splits)

lemma img_for_jpeg_calls_rule:
  assumes "print_error lib = (\<lambda>_. None)"
  shows "calls (snd (img_for_jpeg lib img w)) = calls w @
     (if mode img = ''RGBA'' then
        ImageNew ''RGB'' (image_size img) (255, 255, 255) #
        (case pil_new lib ''RGB'' (image_size img) (255, 255, 255) of
           Inl e \<Rightarrow> []
         | Inr bg \<Rightarrow>
             ImageSplit img #
             (case pil_split lib img of
                Inl e \<Rightarrow> []
              | Inr bands \<Rightarrow> if 3 < length bands then [ImagePaste bg img (bands ! 3)] else []))
      else if mode img \<noteq> ''RGB'' then [ImageConvert img ''RGB'']
      else [])"
  by (simp add: img_for_jpeg_def Image_new_def Image_split_def Image_paste_def
      Image_convert_def getitem_def io_defs print_ok [OF assms] split: prod.splits sum.splits)

lemma input_path_not_output_folder: "input_path b \<noteq> OUTPUT_FOLDER"
  by (auto simp: input_path_def os_path_join_def INPUT_FOLDER_def OUTPUT_FOLDER_def
      startswith_def endswith_def)

lemma output_png_path_not_output_folder: "output_png_path b \<noteq> OUTPUT_FOLDER"
  by (auto simp: output_png_path_def os_path_join_def OUTPUT_FOLDER_def
      startswith_def endswith_def)

lemma output_jpg_path_not_output_folder: "output_jpg_path b \<noteq> OUTPUT_FOLDER"
  by (auto simp: output_jpg_path_def os_path_join_def OUTPUT_FOLDER_def
      startswith_def endswith_def)

lemma str_core_filename_append_webp: "str_core_filename (s @ ''.webp'') = s"
  by (simp add: str_core_filename_def endswith_def)

lemma startswith_slash_append:
  "x \<noteq> [] \<Longrightarrow> hd x \<noteq> CHR ''/'' \<Longrightarrow> startswith (s @ x) ''/'' = startswith s ''/''"
  by (cases s; cases x) (auto simp: startswith_def)

lemma makedirs_frame:
  assumes "makedirs lib fsys p = Inr fsys1"
  shows "(\<forall>p'. p' \<noteq> p \<longrightarrow> fsys1 p' = fsys p') \<and> (\<forall>p'. isfile fsys1 p' = isfile fsys p')"
  using assms
  by (auto simp: makedirs_def isfile_def split: option.splits node.splits if_splits)

lemma convert_missing:
  assumes "print_error lib = (\<lambda>_. None)" and "\<not> isfile (fs w) (input_path b)"
  shows "convert_webp_to_png_and_jpeg lib b q w =
           (Inr False, w\<lparr>stdout := stdout w @ [InputNotFound (input_path b)],
                         calls := calls w @ [IsFile (input_path b)]\<rparr>)"
  using assms(2)
  by (simp add: convert_webp_to_png_and_jpeg_def os_path_isfile_def io_defs print_ok [OF assms(1)])

lemma convert_makedirs_fails:
  assumes "print_error lib = (\<lambda>_. None)"
    and "isfile (fs w) (input_path b)" and "makedirs lib (fs w) OUTPUT_FOLDER = Inl e"
  shows "convert_webp_to_png_and_jpeg lib b q w =
           (Inr False, w\<lparr>stdout := stdout w @ [Processing (input_path b), UnexpectedError b e],
                         calls := calls w @ [IsFile (input_path b), MakeDirs OUTPUT_FOLDER]\<rparr>)"
  using assms(2,3)
  by (simp add: convert_webp_to_png_and_jpeg_def os_path_isfile_def os_makedirs_def io_defs
      print_ok [OF assms(1)])

lemma convert_open_fails:
  assumes "print_error lib = (\<lambda>_. None)"
    and "isfile (fs w) (input_path b)" and "makedirs lib (fs w) OUTPUT_FOLDER = Inr fsys"
    and "open_image lib fsys (input_path b) = Inl e"
  shows "convert_webp_to_png_and_jpeg lib b q w =
           (Inr False, w\<lparr>fs := fsys,
                         stdout := stdout w @ [Processing (input_path b), UnexpectedError b e],
                         calls := calls w @ [IsFile (input_path b), MakeDirs OUTPUT_FOLDER,
                                             ImageOpen (input_path b)]\<rparr>)"
  using assms(2,3,4)
  by (simp add: convert_webp_to_png_and_jpeg_def os_path_isfile_def os_makedirs_def
      Image_open_def io_defs print_ok [OF assms(1)])

lemma convert_decoded:
  assumes "print_error lib = (\<lambda>_. None)"
    and "isfile (fs w) (input_path b)" and "makedirs lib (fs w) OUTPUT_FOLDER = Inr fsys"
    and "open_image lib fsys (input_path b) = Inr img"
    and "png_conversion lib img (output_png_path b) (decoded_world w fsys b) = (Inr pf, w2)"
    and "jpeg_conversion lib img (output_jpg_path b) q w2 = (Inr jf, w3)"
  shows "convert_webp_to_png_and_jpeg lib b q w =
           (Inr True, w3\<lparr>stdout := stdout w3 @ [Finished b pf jf]\<rparr>)"
  using assms(2-)
  by (simp add: convert_webp_to_png_and_jpeg_def os_path_isfile_def os_makedirs_def
      Image_open_def io_defs decoded_world_def print_ok [OF assms(1)])

lemma convert_cases [consumes 1, case_names missing makedirs_fails open_fails decoded]:
  assumes ok: "print_error lib = (\<lambda>_. None)"
  obtains
    (missing) "\<not> isfile (fs w) (input_path b)"
      "convert_webp_to_png_and_jpeg lib b q w =
         (Inr False, w\<lparr>stdout := stdout w @ [InputNotFound (input_path b)],
                       calls := calls w @ [IsFile (input_path b)]\<rparr>)"
  | (makedirs_fails) e where "isfile (fs w) (input_path b)"
      "makedirs lib (fs w) OUTPUT_FOLDER = Inl e"
      "convert_webp_to_png_and_jpeg lib b q w =
         (Inr False, w\<lparr>stdout := stdout w @ [Processing (input_path b), UnexpectedError b e],
                       calls := calls w @ [IsFile (input_path b), MakeDirs OUTPUT_FOLDER]\<rparr>)"
  | (open_fails) fsys e where "isfile (fs w) (input_path b)"
      "makedirs lib (fs w) OUTPUT_FOLDER = Inr fsys"
      "open_image lib fsys (input_path b) = Inl e"
      "convert_webp_to_png_and_jpeg lib b q w =
         (Inr False, w\<lparr>fs := fsys,
                       stdout := stdout w @ [Processing (input_path b), UnexpectedError b e],
                       calls := calls w @ [IsFile (input_path b), MakeDirs OUTPUT_FOLDER,
                                           ImageOpen (input_path b)]\<rparr>)"
  | (decoded) fsys img pf w2 jf w3 where "isfile (fs w) (input_path b)"
      "makedirs lib (fs w) OUTPUT_FOLDER = Inr fsys"
      "open_image lib fsys (input_path b) = Inr img"
      "png_conversion lib img (output_png_path b) (decoded_world w fsys b) = (Inr pf, w2)"
      "jpeg_conversion lib img (output_jpg_path b) q w2 = (Inr jf, w3)"
      "convert_webp_to_png_and_jpeg lib b q w =
         (Inr True, w3\<lparr>stdout := stdout w3 @ [Finished b pf jf]\<rparr>)"
proof (cases "isfile (fs w) (input_path b)")
  case False
  then show ?thesis using missing convert_missing [OF ok] by blast
next
  case found: True
  show ?thesis
  proof (cases "makedirs lib (fs w) OUTPUT_FOLDER")
    case (Inl e)
    with found show ?thesis using makedirs_fails convert_makedirs_fails [OF ok] by blast
  next
    case made: (Inr fsys)
    show ?thesis
    proof (cases "open_image lib fsys (input_path b)")
      case (Inl e)
      with found made show ?thesis using open_fails convert_open_fails [OF ok] by blast
    next
      case (Inr img)
      obtain pf w2
        where P: "png_conversion lib img (output_png_path b) (decoded_world w fsys b) = (Inr pf, w2)"
        using png_conversion_returns [OF ok] by blast
      obtain jf w3 where J: "jpeg_conversion lib img (output_jpg_path b) q w2 = (Inr jf, w3)"
        using jpeg_conversion_returns [OF ok] by blast
      show ?thesis
        using convert_decoded [OF ok found made Inr P J] decoded [OF found made Inr P J] by simp
    qed
  qed
qed

lemma decoded_calls:
  assumes ok: "print_error lib = (\<lambda>_. None)"
    and "isfile fsys (input_path b)" and "makedirs lib fsys OUTPUT_FOLDER = Inr fsys1"
    and "open_image lib fsys1 (input_path b) = Inr img"
  shows "calls (snd (convert_webp_to_png_and_jpeg lib b q (initial fsys))) =
           [IsFile (input_path b), MakeDirs OUTPUT_FOLDER, ImageOpen (input_path b),
            ImageSave img (output_png_path b) PNG None]
           @ (if mode img = ''RGBA'' then
                ImageNew ''RGB'' (image_size img) (255, 255, 255) #
                (case pil_new lib ''RGB'' (image_size img) (255, 255, 255) of
                   Inl e \<Rightarrow> []
                 | Inr bg \<Rightarrow>
                     ImageSplit img #
                     (case pil_split lib img of
                        Inl e \<Rightarrow> []
                      | Inr bands \<Rightarrow>
                          if 3 < length bands then [ImagePaste bg img (bands ! 3)] else []))
              else if mode img \<noteq> ''RGB'' then [ImageConvert img ''RGB'']
              else [])
           @ (case jpeg_source lib img of
                Inl e \<Rightarrow> []
              | Inr src \<Rightarrow> [ImageSave src (output_jpg_path b) JPEG (Some q)])"
  using ok
proof (cases rule: convert_cases [where w = "initial fsys" and b = b and q = q])
  case missing
  with assms show ?thesis by (simp add: initial_def)
next
  case (makedirs_fails e)
  with assms show ?thesis by (simp add: initial_def)
next
  case (open_fails fsys2 e)
  with assms show ?thesis by (simp add: initial_def)
next
  case (decoded fsys2 img' pf w2 jf w3)
  have eq: "fsys2 = fsys1" "img' = img"
    using decoded(2,3) assms by (simp_all add: initial_def)
  have c2: "calls w2 = [IsFile (input_path b), MakeDirs OUTPUT_FOLDER, ImageOpen (input_path b),
                        ImageSave img (output_png_path b) PNG None]"
    using decoded(4) eq
    by (auto simp: png_conversion_run [OF ok] decoded_world_def initial_def
        split: prod.splits option.splits)
  let ?w0 = "w2\<lparr>stdout := stdout w2 @ [ConvertingToJpeg (output_jpg_path b) q]\<rparr>"
  obtain r w1 where s: "img_for_jpeg lib img ?w0 = (r, w1)"
    by (cases "img_for_jpeg lib img ?w0")
  have r: "r = jpeg_source lib img"
    using img_for_jpeg_source [of lib img ?w0] s by simp
  have c1: "calls w1 = calls w2 @ (if mode img = ''RGBA'' then
                ImageNew ''RGB'' (image_size img) (255, 255, 255) #
                (case pil_new lib ''RGB'' (image_size img) (255, 255, 255) of
                   Inl e \<Rightarrow> []
                 | Inr bg \<Rightarrow>
                     ImageSplit img #
                     (case pil_split lib img of
                        Inl e \<Rightarrow> []
                      | Inr bands \<Rightarrow>
                          if 3 < length bands then [ImagePaste bg img (bands ! 3)] else []))
              else if mode img \<noteq> ''RGB'' then [ImageConvert img ''RGB'']
              else [])"
    using img_for_jpeg_calls_rule [OF ok, of img ?w0] s by simp
  have "calls w3 = calls w1 @ (case jpeg_source lib img of
                Inl e \<Rightarrow> []
              | Inr src \<Rightarrow> [ImageSave src (output_jpg_path b) JPEG (Some q)])"
    using decoded(5) s r eq
    by (auto simp: jpeg_conversion_run [OF ok] split: sum.splits prod.splits option.splits)
  then show ?thesis
    using decoded(6) c1 c2 by simp
qed

lemma sample_console: "print_error sample_library = (\<lambda>_. None)"
  by (simp add: sample_library_def)

lemma sample_photo_decodes:
  "isfile sample_files (input_path ''photo.webp'')
   \<and> makedirs sample_library sample_files OUTPUT_FOLDER = Inr (sample_files(''outputs'' \<mapsto> Dir))
   \<and> open_image sample_library (sample_files(''outputs'' \<mapsto> Dir)) (input_path ''photo.webp'')
       = Inr sample_image"
  by (simp add: isfile_def makedirs_def open_image_def sample_files_def sample_library_def
      path_defs)

subsection \<open>Runs on given inputs, and runs that cannot open the image\<close>

lemmas run_defs = convert_webp_to_png_and_jpeg_def png_conversion_def jpeg_conversion_def
  img_for_jpeg_def os_path_isfile_def os_makedirs_def Image_open_def Image_save_def
  Image_new_def Image_split_def Image_paste_def Image_convert_def getitem_def
  makedirs_def open_image_def isfile_def print_def io_defs initial_def

lemma open_fails_run:
  assumes inp: "fs w (input_path b) = Some (File content)" and bad: "pil_open lib content = Inl e"
  shows "fst (convert_webp_to_png_and_jpeg lib b q w) \<noteq> Inr True
       \<and> (fs (snd (convert_webp_to_png_and_jpeg lib b q w)) = fs w
          \<or> makedirs lib (fs w) OUTPUT_FOLDER
               = Inr (fs (snd (convert_webp_to_png_and_jpeg lib b q w))))
       \<and> filter is_save (calls (snd (convert_webp_to_png_and_jpeg lib b q w)))
           = filter is_save (calls w)"
proof -
  have found: "isfile (fs w) (input_path b)"
    using inp by (simp add: isfile_def)
  show ?thesis
  proof (cases "print_error lib (Processing (input_path b))")
    case (Some e1)
    with found show ?thesis
      by (simp add: convert_webp_to_png_and_jpeg_def os_path_isfile_def io_defs print_def
          split: option.splits)
  next
    case None
    show ?thesis
    proof (cases "makedirs lib (fs w) OUTPUT_FOLDER")
      case (Inl e2)
      with found None show ?thesis
        by (simp add: convert_webp_to_png_and_jpeg_def os_path_isfile_def os_makedirs_def
            io_defs print_def split: option.splits)
    next
      case (Inr fsys1)
      have "fsys1 (input_path b) = fs w (input_path b)"
        using makedirs_frame [OF Inr] input_path_not_output_folder by blast
      then have "open_image lib fsys1 (input_path b) = Inl e"
        using inp bad by (simp add: open_image_def)
      with found None Inr show ?thesis
        by (simp add: convert_webp_to_png_and_jpeg_def os_path_isfile_def os_makedirs_def
            Image_open_def io_defs print_def split: option.splits)
    qed
  qed
qed

text \<open>
  A missing input, whatever the console does: the lookup is the only call and the file
  system is left as it was.
\<close>

lemma missing_input_no_action:
  assumes "\<not> isfile (fs w) (input_path b)"
  shows "fs (snd (convert_webp_to_png_and_jpeg lib b q w)) = fs w
       \<and> calls (snd (convert_webp_to_png_and_jpeg lib b q w)) = calls w @ [IsFile (input_path b)]
       \<and> fst (convert_webp_to_png_and_jpeg lib b q w) \<noteq> Inr True"
  using assms
  by (simp add: convert_webp_to_png_and_jpeg_def os_path_isfile_def io_defs print_def
      split: option.splits)

subsection \<open>The claims\<close>




text \<open>
  Claim C2. With a console that takes every line, the calls of a run with a decoded image
  show the three-way rule. Mode \<^verbatim>\<open>RGBA\<close>: a canvas of mode \<^verbatim>\<open>RGB\<close>, of the size of the
  image and of colour \<open>(255, 255, 255)\<close> is created, the image is pasted onto it with
  band 3 of its own \<^verbatim>\<open>split()\<close> as mask, and the pasted canvas is what is saved as JPEG.
  Any other mode but \<^verbatim>\<open>RGB\<close>: the image is converted to \<^verbatim>\<open>RGB\<close> and the conversion is
  saved. Mode \<^verbatim>\<open>RGB\<close>: the decoded image itself is saved, with no other call in between.
\<close>

theorem C2_jpeg_encode_source:
  assumes "print_error lib = (\<lambda>_. None)"
    and "isfile fsys (input_path b)" and "makedirs lib fsys OUTPUT_FOLDER = Inr fsys1"
    and "open_image lib fsys1 (input_path b) = Inr img"
  shows "(mode img = ''RGBA'' \<longrightarrow>
           (\<forall>bg bands composite.
              pil_new lib ''RGB'' (image_size img) (255, 255, 255) = Inr bg
            \<and> pil_split lib img = Inr bands \<and> 3 < length bands
            \<and> pil_paste lib bg img (bands ! 3) = Inr composite \<longrightarrow>
              jpeg_source lib img = Inr composite
            \<and> calls (snd (convert_webp_to_png_and_jpeg lib b q (initial fsys))) =
                [IsFile (input_path b), MakeDirs OUTPUT_FOLDER, ImageOpen (input_path b),
                 ImageSave img (output_png_path b) PNG None,
                 ImageNew ''RGB'' (image_size img) (255, 255, 255),
                 ImageSplit img,
                 ImagePaste bg img (bands ! 3),
                 ImageSave composite (output_jpg_path b) JPEG (Some q)]))
       \<and> (mode img \<noteq> ''RGBA'' \<and> mode img \<noteq> ''RGB'' \<longrightarrow>
           (\<forall>converted.
              pil_convert lib img ''RGB'' = Inr converted \<longrightarrow>
              jpeg_source lib img = Inr converted
            \<and> calls (snd (convert_webp_to_png_and_jpeg lib b q (initial fsys))) =
                [IsFile (input_path b), MakeDirs OUTPUT_FOLDER, ImageOpen (input_path b),
                 ImageSave img (output_png_path b) PNG None,
                 ImageConvert img ''RGB'',
                 ImageSave converted (output_jpg_path b) JPEG (Some q)]))
       \<and> (mode img = ''RGB'' \<longrightarrow>
              jpeg_source lib img = Inr img
            \<and> calls (snd (convert_webp_to_png_and_jpeg lib b q (initial fsys))) =
                [IsFile (input_path b), MakeDirs OUTPUT_FOLDER, ImageOpen (input_path b),
                 ImageSave img (output_png_path b) PNG None,
                 ImageSave img (output_jpg_path b) JPEG (Some q)])"
  by (simp add: decoded_calls [OF assms] jpeg_source_rule [OF assms(1)])

theorem C2_jpeg_encode_source_witness:
  "print_error sample_library = (\<lambda>_. None)
   \<and> isfile sample_files (input_path ''photo.webp'')
   \<and> mode sample_image = ''RGBA''
   \<and> jpeg_source sample_library sample_image
       = Inr \<lparr>mode = ''RGB'', image_size = (1, 1), pixels = [255, 255, 255]\<rparr>
   \<and> calls (snd (convert_webp_to_png_and_jpeg sample_library ''photo.webp'' 85 (initial sample_files))) =
       [IsFile ''inputs/photo.webp'', MakeDirs ''outputs'', ImageOpen ''inputs/photo.webp'',
        ImageSave sample_image ''outputs/photo.png'' PNG None,
        ImageNew ''RGB'' (1, 1) (255, 255, 255),
        ImageSplit sample_image,
        ImagePaste \<lparr>mode = ''RGB'', image_size = (1, 1), pixels = [255, 255, 255]\<rparr> sample_image
          \<lparr>mode = ''L'', image_size = (1, 1), pixels = [0]\<rparr>,
        ImageSave \<lparr>mode = ''RGB'', image_size = (1, 1), pixels = [255, 255, 255]\<rparr>
          ''outputs/photo.jpg'' JPEG (Some 85)]"
proof -
  note d = sample_photo_decodes
  note t = C2_jpeg_encode_source [OF sample_console d [THEN conjunct1] d [THEN conjunct2, THEN conjunct1]
      d [THEN conjunct2, THEN conjunct2], of 85]
  have m: "mode sample_image = ''RGBA''" "image_size sample_image = (1, 1)"
    by (simp_all add: sample_image_def)
  have n: "pil_new sample_library ''RGB'' (1, 1) (255, 255, 255)
             = Inr \<lparr>mode = ''RGB'', image_size = (1, 1), pixels = [255, 255, 255]\<rparr>"
    by (simp add: sample_library_def)
  have sp: "pil_split sample_library sample_image
             = Inr [\<lparr>mode = ''L'', image_size = (1, 1), pixels = [10]\<rparr>,
                    \<lparr>mode = ''L'', image_size = (1, 1), pixels = [20]\<rparr>,
                    \<lparr>mode = ''L'', image_size = (1, 1), pixels = [30]\<rparr>,
                    \<lparr>mode = ''L'', image_size = (1, 1), pixels = [0]\<rparr>]"
    by (simp add: sample_library_def sample_image_def)
  have pa: "pil_paste sample_library \<lparr>mode = ''RGB'', image_size = (1, 1), pixels = [255, 255, 255]\<rparr>
              sample_image \<lparr>mode = ''L'', image_size = (1, 1), pixels = [0]\<rparr>
             = Inr \<lparr>mode = ''RGB'', image_size = (1, 1), pixels = [255, 255, 255]\<rparr>"
    by (simp add: sample_library_def)
  have paths: "input_path ''photo.webp'' = ''inputs/photo.webp''"
    "output_png_path ''photo.webp'' = ''outputs/photo.png''"
    "output_jpg_path ''photo.webp'' = ''outputs/photo.jpg''" "OUTPUT_FOLDER = ''outputs''"
    by (simp_all add: path_defs)
  show ?thesis
    using sample_console d t m n sp pa by (simp add: paths)
qed



text \<open>
  Claim C4: with no regular file at the input path the call is to return \<open>False\<close> and
  do nothing else. It does nothing else (\<open>missing_input_no_action\<close> above), but it does
  not always return \<open>False\<close>. For a missing file whose name the console cannot write,
  the \<^verbatim>\<open>print\<close> of line 41 raises inside the \<^verbatim>\<open>try\<close>, the handler's own
  \<^verbatim>\<open>print\<close> at line 93 shows the same name and raises again, outside every \<^verbatim>\<open>try\<close>,
  and the call ends with that exception. The run below is from the sample files, with the
  strict console and a name that holds a byte of the command line that is not text.
\<close>

theorem C4_failing_input:
  "\<not> isfile sample_files (input_path escaped_name)
   \<and> convert_webp_to_png_and_jpeg strict_library escaped_name 85 (initial sample_files)
     = (Inl (PyExc ''UnicodeEncodeError'' ''surrogates not allowed''),
        \<lparr>fs = sample_files, stdout = [], calls = [IsFile (input_path escaped_name)]\<rparr>)"
  by (simp add: run_defs strict_library_def strict_stdout_def escaped_name_def
      sample_library_def sample_files_def path_defs)

text \<open>
  Claim C5, as stated, fails for a file that opens but whose data cannot be loaded. The
  library opens an image from its header and reads the data when it is first needed,
  inside \<^verbatim>\<open>save\<close>: both blocks catch the exception, both flags are \<open>False\<close>, and the
  call returns \<open>True\<close>.
\<close>

theorem C5_counterexample:
  "sample_files (input_path ''photo.webp'') = Some (File ''RIFF'')
   \<and> pil_open truncated_library ''RIFF'' = Inr sample_image
   \<and> fst (pil_save truncated_library sample_image PNG None (output_png_path ''photo.webp'') None)
     = Some (PyExc ''OSError'' ''image file is truncated'')
   \<and> fst (convert_webp_to_png_and_jpeg truncated_library ''photo.webp'' 85 (initial sample_files))
     = Inr True
   \<and> summary (snd (convert_webp_to_png_and_jpeg truncated_library ''photo.webp'' 85
        (initial sample_files))) = Some (False, False)"
  by (simp add: run_defs truncated_library_def sample_library_def sample_image_def
      sample_files_def summary_def path_defs)

text \<open>
  Claim C5, amended. When the input file exists and \<^verbatim>\<open>Image.open\<close> itself rejects its
  contents, the call does not return \<open>True\<close> and produces no output: no \<^verbatim>\<open>save\<close> is
  called, the regular files are those there were before, with their contents (only the
  output folder may have been created), and in particular nothing is at the PNG and JPEG
  paths that was not there. With a console that takes every line the call returns
  \<open>False\<close>, and when the output folder could be ensured the exception it reports is
  the decoder's.
\<close>

theorem C5_decode_error:
  assumes "fs w (input_path b) = Some (File content)" and "pil_open lib content = Inl e"
  shows "fst (convert_webp_to_png_and_jpeg lib b q w) \<noteq> Inr True
       \<and> (\<forall>p. isfile (fs (snd (convert_webp_to_png_and_jpeg lib b q w))) p = isfile (fs w) p)
       \<and> (\<forall>p. p \<noteq> OUTPUT_FOLDER \<longrightarrow> fs (snd (convert_webp_to_png_and_jpeg lib b q w)) p = fs w p)
       \<and> fs (snd (convert_webp_to_png_and_jpeg lib b q w)) (output_png_path b) = fs w (output_png_path b)
       \<and> fs (snd (convert_webp_to_png_and_jpeg lib b q w)) (output_jpg_path b) = fs w (output_jpg_path b)
       \<and> filter is_save (calls (snd (convert_webp_to_png_and_jpeg lib b q w))) = filter is_save (calls w)
       \<and> (print_error lib = (\<lambda>_. None) \<longrightarrow>
            fst (convert_webp_to_png_and_jpeg lib b q w) = Inr False
          \<and> (\<forall>fsys. makedirs lib (fs w) OUTPUT_FOLDER = Inr fsys \<longrightarrow>
                stdout (snd (convert_webp_to_png_and_jpeg lib b q w)) =
                  stdout w @ [Processing (input_path b), UnexpectedError b e]))"
proof -
  note run = open_fails_run [OF assms, of q]
  have frame: "(\<forall>p. isfile (fs (snd (convert_webp_to_png_and_jpeg lib b q w))) p = isfile (fs w) p)
       \<and> (\<forall>p. p \<noteq> OUTPUT_FOLDER \<longrightarrow> fs (snd (convert_webp_to_png_and_jpeg lib b q w)) p = fs w p)"
  proof (cases "fs (snd (convert_webp_to_png_and_jpeg lib b q w)) = fs w")
    case True
    then show ?thesis by simp
  next
    case False
    with run have "makedirs lib (fs w) OUTPUT_FOLDER
               = Inr (fs (snd (convert_webp_to_png_and_jpeg lib b q w)))"
      by blast
    from makedirs_frame [OF this] show ?thesis by blast
  qed
  have ok_part: "print_error lib = (\<lambda>_. None) \<longrightarrow>
            fst (convert_webp_to_png_and_jpeg lib b q w) = Inr False
          \<and> (\<forall>fsys. makedirs lib (fs w) OUTPUT_FOLDER = Inr fsys \<longrightarrow>
                stdout (snd (convert_webp_to_png_and_jpeg lib b q w)) =
                  stdout w @ [Processing (input_path b), UnexpectedError b e])"
  proof
    assume ok: "print_error lib = (\<lambda>_. None)"
    then show "fst (convert_webp_to_png_and_jpeg lib b q w) = Inr False
          \<and> (\<forall>fsys. makedirs lib (fs w) OUTPUT_FOLDER = Inr fsys \<longrightarrow>
                stdout (snd (convert_webp_to_png_and_jpeg lib b q w)) =
                  stdout w @ [Processing (input_path b), UnexpectedError b e])"
    proof (cases rule: convert_cases [where w = w and b = b and q = q])
      case missing
      with assms show ?thesis by (simp add: isfile_def)
    next
      case (makedirs_fails e')
      then show ?thesis by simp
    next
      case (open_fails fsys1 e')
      have same: "fsys1 (input_path b) = fs w (input_path b)"
        using makedirs_frame [OF open_fails(2)] input_path_not_output_folder by blast
      have "e' = e"
        using open_fails(3) assms same by (simp add: open_image_def)
      then show ?thesis
        using open_fails by simp
    next
      case (decoded fsys1 img pf w2 jf w3)
      have same: "fsys1 (input_path b) = fs w (input_path b)"
        using makedirs_frame [OF decoded(2)] input_path_not_output_folder by blast
      have False
        using decoded(3) assms same by (simp add: open_image_def)
      then show ?thesis ..
    qed
  qed
  show ?thesis
    using run frame ok_part
      output_png_path_not_output_folder [of b] output_jpg_path_not_output_folder [of b]
    by simp
qed

theorem C5_decode_error_witness:
  "fs (initial sample_files) (input_path ''broken.webp'') = Some (File ''not an image'')
   \<and> pil_open sample_library ''not an image''
       = Inl (PyExc ''UnidentifiedImageError'' ''cannot identify image file'')
   \<and> print_error sample_library = (\<lambda>_. None)
   \<and> fst (convert_webp_to_png_and_jpeg sample_library ''broken.webp'' 85 (initial sample_files))
       = Inr False
   \<and> fs (snd (convert_webp_to_png_and_jpeg sample_library ''broken.webp'' 85 (initial sample_files)))
        (output_png_path ''broken.webp'') = None
   \<and> fs (snd (convert_webp_to_png_and_jpeg sample_library ''broken.webp'' 85 (initial sample_files)))
        (output_jpg_path ''broken.webp'') = None
   \<and> filter is_save
        (calls (snd (convert_webp_to_png_and_jpeg sample_library ''broken.webp'' 85
           (initial sample_files)))) = []"
proof -
  have h1: "fs (initial sample_files) (input_path ''broken.webp'') = Some (File ''not an image'')"
    by (simp add: initial_def sample_files_def path_defs)
  have h2: "pil_open sample_library ''not an image''
       = Inl (PyExc ''UnidentifiedImageError'' ''cannot identify image file'')"
    by (simp add: sample_library_def)
  have n1: "fs (initial sample_files) (output_png_path ''broken.webp'') = None"
    by (simp add: initial_def sample_files_def path_defs)
  have n2: "fs (initial sample_files) (output_jpg_path ''broken.webp'') = None"
    by (simp add: initial_def sample_files_def path_defs)
  have n3: "calls (initial sample_files) = []"
    by (simp add: initial_def)
  show ?thesis
    using h1 h2 n1 n2 n3 sample_console C5_decode_error [OF h1 h2, of 85] by simp
qed

text \<open>
  Claim C6, as stated, fails for a stem that itself ends in \<^verbatim>\<open>.webp\<close>: the suffix is
  stripped once, so \<^verbatim>\<open>a.webp\<close> is written to \<^verbatim>\<open>outputs/a.png\<close> and \<^verbatim>\<open>a.webp.webp\<close> to
  \<^verbatim>\<open>outputs/a.webp.png\<close>.
\<close>

theorem C6_counterexample:
  "output_png_path ''a.webp'' = ''outputs/a.png''
   \<and> output_png_path (''a.webp'' @ ''.webp'') = ''outputs/a.webp.png''
   \<and> output_png_path (''a.webp'' @ ''.webp'') \<noteq> output_png_path ''a.webp''"
  by (simp add: path_defs)

text \<open>
  Claim C6, amended. For every stem that does not itself end in \<^verbatim>\<open>.webp\<close>, the stem
  and the stem followed by \<^verbatim>\<open>.webp\<close> give the same two output paths; when the stem does
  not start with \<^verbatim>\<open>/\<close> (which \<^verbatim>\<open>os.path.join\<close> would take as an absolute path) they are
  \<^verbatim>\<open>outputs/<stem>.png\<close> and \<^verbatim>\<open>outputs/<stem>.jpg\<close>.
\<close>

theorem C6_same_outputs:
  assumes "\<not> endswith s ''.webp''"
  shows "output_png_path (s @ ''.webp'') = output_png_path s
       \<and> output_jpg_path (s @ ''.webp'') = output_jpg_path s
       \<and> (\<not> startswith s ''/'' \<longrightarrow>
            output_png_path s = ''outputs/'' @ s @ ''.png''
          \<and> output_jpg_path s = ''outputs/'' @ s @ ''.jpg'')"
proof -
  have core: "str_core_filename s = s"
    using assms by (simp add: str_core_filename_def)
  have "startswith (s @ ''.png'') ''/'' = startswith s ''/''"
    and "startswith (s @ ''.jpg'') ''/'' = startswith s ''/''"
    by (simp_all add: startswith_slash_append)
  then show ?thesis
    using core
    by (simp add: output_png_path_def output_jpg_path_def str_core_filename_append_webp
        os_path_join_def OUTPUT_FOLDER_def endswith_def)
qed

theorem C6_same_outputs_witness:
  "\<not> endswith ''photo'' ''.webp'' \<and> \<not> startswith ''photo'' ''/''
   \<and> output_png_path (''photo'' @ ''.webp'') = output_png_path ''photo''
   \<and> output_jpg_path (''photo'' @ ''.webp'') = output_jpg_path ''photo''
   \<and> output_png_path ''photo'' = ''outputs/photo.png''
   \<and> output_jpg_path ''photo'' = ''outputs/photo.jpg''"
proof -
  have h: "\<not> endswith ''photo'' ''.webp''"
    by (simp add: endswith_def)
  have k: "\<not> startswith ''photo'' ''/''"
    by (simp add: startswith_def)
  show ?thesis
    using h k C6_same_outputs [OF h] by simp
qed

text \<open>
  Claim C7. The input path is the input folder joined with the base filename as given.
  The run looks up, and opens, that path and no other; it can only return \<open>True\<close> when a
  regular file is at exactly that path. A base filename without the suffix is, unchanged,
  also the stem of the two output paths. Nothing is assumed of the console.
\<close>

theorem C7_raw_input_path:
  "input_path b = os_path_join INPUT_FOLDER b
   \<and> (\<not> startswith b ''/'' \<longrightarrow> input_path b = ''inputs/'' @ b)
   \<and> hd (calls (snd (convert_webp_to_png_and_jpeg lib b q (initial fsys))))
       = IsFile (os_path_join INPUT_FOLDER b)
   \<and> (\<forall>p. IsFile p \<in> set (calls (snd (convert_webp_to_png_and_jpeg lib b q (initial fsys))))
          \<or> ImageOpen p \<in> set (calls (snd (convert_webp_to_png_and_jpeg lib b q (initial fsys))))
        \<longrightarrow> p = os_path_join INPUT_FOLDER b)
   \<and> (fst (convert_webp_to_png_and_jpeg lib b q (initial fsys)) = Inr True
        \<longrightarrow> isfile fsys (os_path_join INPUT_FOLDER b))
   \<and> (\<not> endswith b ''.webp'' \<longrightarrow>
          str_core_filename b = b
        \<and> output_png_path b = os_path_join OUTPUT_FOLDER (b @ ''.png'')
        \<and> output_jpg_path b = os_path_join OUTPUT_FOLDER (b @ ''.jpg''))"
proof -
  have paths: "input_path b = os_path_join INPUT_FOLDER b
     \<and> (\<not> startswith b ''/'' \<longrightarrow> input_path b = ''inputs/'' @ b)
     \<and> (\<not> endswith b ''.webp'' \<longrightarrow>
          str_core_filename b = b
        \<and> output_png_path b = os_path_join OUTPUT_FOLDER (b @ ''.png'')
        \<and> output_jpg_path b = os_path_join OUTPUT_FOLDER (b @ ''.jpg''))"
    by (simp add: input_path_def output_png_path_def output_jpg_path_def str_core_filename_def
        os_path_join_def INPUT_FOLDER_def endswith_def)
  obtain cs where cs: "calls (snd (convert_webp_to_png_and_jpeg lib b q (initial fsys)))
        = IsFile (input_path b) # cs"
    and only: "list_all (\<lambda>c. looked_up c = None \<or> looked_up c = Some (input_path b)) cs"
    using convert_first_call [of lib b q "initial fsys"] by (auto simp: initial_def)
  have looked: "\<forall>c \<in> set (calls (snd (convert_webp_to_png_and_jpeg lib b q (initial fsys)))).
      looked_up c = None \<or> looked_up c = Some (input_path b)"
    using cs only by (simp add: list_all_iff)
  have run: "hd (calls (snd (convert_webp_to_png_and_jpeg lib b q (initial fsys))))
       = IsFile (input_path b)
   \<and> (\<forall>p. IsFile p \<in> set (calls (snd (convert_webp_to_png_and_jpeg lib b q (initial fsys))))
          \<or> ImageOpen p \<in> set (calls (snd (convert_webp_to_png_and_jpeg lib b q (initial fsys))))
        \<longrightarrow> p = input_path b)
   \<and> (fst (convert_webp_to_png_and_jpeg lib b q (initial fsys)) = Inr True
        \<longrightarrow> isfile fsys (input_path b))"
  proof (intro conjI allI impI)
    show "hd (calls (snd (convert_webp_to_png_and_jpeg lib b q (initial fsys))))
       = IsFile (input_path b)"
      using cs by simp
  next
    fix p
    assume "IsFile p \<in> set (calls (snd (convert_webp_to_png_and_jpeg lib b q (initial fsys))))
          \<or> ImageOpen p \<in> set (calls (snd (convert_webp_to_png_and_jpeg lib b q (initial fsys))))"
    then show "p = input_path b"
      using looked by force
  next
    assume "fst (convert_webp_to_png_and_jpeg lib b q (initial fsys)) = Inr True"
    then show "isfile fsys (input_path b)"
      using convert_true_file [of lib b q "initial fsys"] by (simp add: initial_def)
  qed
  have ip: "input_path b = os_path_join INPUT_FOLDER b"
    by (simp add: input_path_def)
  show ?thesis using paths run unfolding ip by blast
qed

theorem C7_raw_input_path_witness:
  "\<not> endswith ''photo'' ''.webp'' \<and> \<not> startswith ''photo'' ''/''
   \<and> input_path ''photo'' = ''inputs/photo''
   \<and> str_core_filename ''photo'' = ''photo''
   \<and> \<not> isfile sample_files (os_path_join INPUT_FOLDER ''photo'')
   \<and> hd (calls (snd (convert_webp_to_png_and_jpeg sample_library ''photo'' 85 (initial sample_files))))
       = IsFile ''inputs/photo''
   \<and> fst (convert_webp_to_png_and_jpeg sample_library ''photo'' 85 (initial sample_files)) \<noteq> Inr True"
proof -
  have h: "\<not> endswith ''photo'' ''.webp''" "\<not> startswith ''photo'' ''/''"
    by (simp_all add: endswith_def startswith_def)
  have j: "os_path_join INPUT_FOLDER ''photo'' = ''inputs/photo''"
    by (simp add: path_defs)
  have n: "\<not> isfile sample_files (os_path_join INPUT_FOLDER ''photo'')"
    by (simp add: j isfile_def sample_files_def)
  note t = C7_raw_input_path [of "''photo''" sample_library 85 sample_files]
  from t n have "fst (convert_webp_to_png_and_jpeg sample_library ''photo'' 85 (initial sample_files)) \<noteq> Inr True"
    by blast
  then show ?thesis
    using h n t j by simp
qed

text \<open>
  Claim C8. A direct call without \<^verbatim>\<open>quality\<close> runs with quality 85; the command line
  without \<^verbatim>\<open>-q\<close> runs the same function with quality 100, and ends as that call ends
  (in the same world, with its exception if it raised). The two differ: the first never
  announces a JPEG conversion at quality 100, the second never one at quality 85.
\<close>

theorem C8_default_quality:
  "convert_webp_to_png_and_jpeg_default lib b w = convert_webp_to_png_and_jpeg lib b 85 w
   \<and> snd (main lib \<lparr>arg_filename = b, arg_quality = None\<rparr> w)
       = snd (convert_webp_to_png_and_jpeg lib b 100 w)
   \<and> fst (main lib \<lparr>arg_filename = b, arg_quality = None\<rparr> w)
       = (case fst (convert_webp_to_png_and_jpeg lib b 100 w) of
            Inl e \<Rightarrow> Inl e
          | Inr res \<Rightarrow> Inr ())
   \<and> parsed_quality \<lparr>arg_filename = b, arg_quality = None\<rparr> = 100
   \<and> \<not> jpeg_attempted b 100 (snd (convert_webp_to_png_and_jpeg_default lib b (initial fsys)))
   \<and> \<not> jpeg_attempted b 85 (snd (main lib \<lparr>arg_filename = b, arg_quality = None\<rparr> (initial fsys)))"
proof -
  have m: "\<And>w. snd (main lib \<lparr>arg_filename = b, arg_quality = None\<rparr> w)
       = snd (convert_webp_to_png_and_jpeg lib b 100 w)
   \<and> fst (main lib \<lparr>arg_filename = b, arg_quality = None\<rparr> w)
       = (case fst (convert_webp_to_png_and_jpeg lib b 100 w) of
            Inl e \<Rightarrow> Inl e
          | Inr res \<Rightarrow> Inr ())"
    by (simp add: main_def parsed_quality_def bind_io_def return_io_def
        split: prod.splits sum.splits)
  have "\<not> jpeg_attempted b 100 (snd (convert_webp_to_png_and_jpeg lib b 85 (initial fsys)))"
    using jpeg_quality_printed [of "output_jpg_path b" 100 lib b 85 fsys]
    by (auto simp: jpeg_attempted_def)
  moreover have "\<not> jpeg_attempted b 85 (snd (convert_webp_to_png_and_jpeg lib b 100 (initial fsys)))"
    using jpeg_quality_printed [of "output_jpg_path b" 85 lib b 100 fsys]
    by (auto simp: jpeg_attempted_def)
  ultimately show ?thesis
    using m by (simp add: convert_webp_to_png_and_jpeg_default_def parsed_quality_def)
qed

text \<open>
  Claim C9: no exception is to reach the caller. One does. The handlers print, and the
  \<^verbatim>\<open>print\<close> of the outer handler (line 93) is inside no \<^verbatim>\<open>try\<close>. For a missing file
  whose name the console cannot write, line 41 raises, the exception is caught at line
  91, and line 93, which shows the same name, raises again: the call ends with a
  \<^verbatim>\<open>UnicodeEncodeError\<close> and returns no boolean.
\<close>

theorem C9_failing_input:
  "print_error strict_library (InputNotFound (input_path escaped_name))
     = Some (PyExc ''UnicodeEncodeError'' ''surrogates not allowed'')
   \<and> print_error strict_library
        (UnexpectedError escaped_name (PyExc ''UnicodeEncodeError'' ''surrogates not allowed''))
     = Some (PyExc ''UnicodeEncodeError'' ''surrogates not allowed'')
   \<and> fst (convert_webp_to_png_and_jpeg strict_library escaped_name 85 (initial sample_files))
     = Inl (PyExc ''UnicodeEncodeError'' ''surrogates not allowed'')"
  by (simp add: run_defs strict_library_def strict_stdout_def escaped_name_def
      sample_library_def sample_files_def path_defs)

text \<open>
  Claim C10. Two runs that differ only in the quality agree on what the PNG block does,
  whatever the console does: the node left at the PNG path (which is computed from the
  base filename alone), the PNG \<^verbatim>\<open>save\<close> calls and the lines the PNG block prints. With a
  console that takes every line they also agree on the result and on the PNG flag of the
  closing line.
\<close>

theorem C10_png_independent_of_quality:
  "fs (snd (convert_webp_to_png_and_jpeg lib b q1 w)) (output_png_path b)
       = fs (snd (convert_webp_to_png_and_jpeg lib b q2 w)) (output_png_path b)
   \<and> filter is_png_save (calls (snd (convert_webp_to_png_and_jpeg lib b q1 w)))
       = filter is_png_save (calls (snd (convert_webp_to_png_and_jpeg lib b q2 w)))
   \<and> filter is_png_message (stdout (snd (convert_webp_to_png_and_jpeg lib b q1 w)))
       = filter is_png_message (stdout (snd (convert_webp_to_png_and_jpeg lib b q2 w)))
   \<and> (print_error lib = (\<lambda>_. None) \<longrightarrow>
        fst (convert_webp_to_png_and_jpeg lib b q1 w) = fst (convert_webp_to_png_and_jpeg lib b q2 w)
      \<and> map_option fst (summary (snd (convert_webp_to_png_and_jpeg lib b q1 w)))
          = map_option fst (summary (snd (convert_webp_to_png_and_jpeg lib b q2 w))))"
proof -
  have always: "png_untouched (output_png_path b)
      (snd (convert_webp_to_png_and_jpeg lib b q2 w)) (snd (convert_webp_to_png_and_jpeg lib b q1 w))"
    using convert_png_agree [of b lib q2 q1] by (simp add: png_agree_def)
  have ok_part: "print_error lib = (\<lambda>_. None) \<longrightarrow>
        fst (convert_webp_to_png_and_jpeg lib b q1 w) = fst (convert_webp_to_png_and_jpeg lib b q2 w)
      \<and> map_option fst (summary (snd (convert_webp_to_png_and_jpeg lib b q1 w)))
          = map_option fst (summary (snd (convert_webp_to_png_and_jpeg lib b q2 w)))"
  proof
    assume ok: "print_error lib = (\<lambda>_. None)"
    then show "fst (convert_webp_to_png_and_jpeg lib b q1 w) = fst (convert_webp_to_png_and_jpeg lib b q2 w)
      \<and> map_option fst (summary (snd (convert_webp_to_png_and_jpeg lib b q1 w)))
          = map_option fst (summary (snd (convert_webp_to_png_and_jpeg lib b q2 w)))"
    proof (cases rule: convert_cases [where w = w and b = b and q = q1])
      case missing
      then show ?thesis by (simp add: convert_missing [OF ok] summary_def)
    next
      case (makedirs_fails e)
      then show ?thesis by (simp add: convert_makedirs_fails [OF ok] summary_def)
    next
      case (open_fails fsys1 e)
      then show ?thesis by (simp add: convert_open_fails [OF ok] summary_def)
    next
      case (decoded fsys1 img pf w2 jf w3)
      obtain jf' w3' where J': "jpeg_conversion lib img (output_jpg_path b) q2 w2 = (Inr jf', w3')"
        using jpeg_conversion_returns [OF ok] by blast
      have r2: "convert_webp_to_png_and_jpeg lib b q2 w =
                  (Inr True, w3'\<lparr>stdout := stdout w3' @ [Finished b pf jf']\<rparr>)"
        using convert_decoded [OF ok decoded(1,2,3,4) J'] .
      show ?thesis
        using decoded(6) r2 by (simp add: summary_def)
    qed
  qed
  show ?thesis
    using always ok_part by (simp add: png_untouched_def)
qed

theorem C10_png_independent_of_quality_witness:
  "print_error sample_library = (\<lambda>_. None)
   \<and> fst (convert_webp_to_png_and_jpeg sample_library ''photo.webp'' 85 (initial sample_files))
       = fst (convert_webp_to_png_and_jpeg sample_library ''photo.webp'' 100 (initial sample_files))
   \<and> map_option fst (summary (snd (convert_webp_to_png_and_jpeg sample_library ''photo.webp'' 85
        (initial sample_files))))
       = map_option fst (summary (snd (convert_webp_to_png_and_jpeg sample_library ''photo.webp'' 100
        (initial sample_files))))
   \<and> filter is_png_save (calls (snd (convert_webp_to_png_and_jpeg sample_library ''photo.webp'' 85
        (initial sample_files))))
       = filter is_png_save (calls (snd (convert_webp_to_png_and_jpeg sample_library ''photo.webp'' 100
        (initial sample_files))))"
  using sample_console
    C10_png_independent_of_quality [of sample_library "''photo.webp''" 85 "initial sample_files" 100]
  by blast

end
